theory Spec2Isabelle
  imports Complex_Main "HOL-Library.Multiset" "HOL-Library.Sublist"
begin

section \<open>Numeric values\<close>

text \<open>
  The scoring engine of \<^verbatim>\<open>models/scoring_model.py\<close> works on pandas columns of
  floating-point numbers. A number is modelled as an exact real, or one of the three
  special values of IEEE arithmetic that the code itself produces or tests for:
  \<^verbatim>\<open>np.inf\<close> (the default of the inventory-days coercion), its negation, and NaN
  (what \<^verbatim>\<open>fillna\<close> replaces). Rounding, overflow and the sign of zero are not
  modelled: finite arithmetic is exact.
\<close>

datatype fl = Fin real | PInf | NInf | NaN

text \<open>Comparisons are IEEE comparisons: every comparison with NaN is false.\<close>

fun fl_lt :: "fl \<Rightarrow> fl \<Rightarrow> bool" where
  "fl_lt NaN _ = False"
| "fl_lt _ NaN = False"
| "fl_lt (Fin a) (Fin b) = (a < b)"
| "fl_lt PInf _ = False"
| "fl_lt _ PInf = True"
| "fl_lt _ NInf = False"
| "fl_lt NInf _ = True"

fun fl_le :: "fl \<Rightarrow> fl \<Rightarrow> bool" where
  "fl_le NaN _ = False"
| "fl_le _ NaN = False"
| "fl_le (Fin a) (Fin b) = (a \<le> b)"
| "fl_le NInf _ = True"
| "fl_le _ PInf = True"
| "fl_le _ _ = False"

definition fl_eq :: "fl \<Rightarrow> fl \<Rightarrow> bool" where
  "fl_eq a b = (a \<noteq> NaN \<and> b \<noteq> NaN \<and> a = b)"

fun fl_neg :: "fl \<Rightarrow> fl" where
  "fl_neg (Fin a) = Fin (- a)"
| "fl_neg PInf = NInf"
| "fl_neg NInf = PInf"
| "fl_neg NaN = NaN"

fun fl_add :: "fl \<Rightarrow> fl \<Rightarrow> fl" where
  "fl_add NaN _ = NaN"
| "fl_add _ NaN = NaN"
| "fl_add (Fin a) (Fin b) = Fin (a + b)"
| "fl_add PInf NInf = NaN"
| "fl_add NInf PInf = NaN"
| "fl_add PInf _ = PInf"
| "fl_add NInf _ = NInf"
| "fl_add _ PInf = PInf"
| "fl_add _ NInf = NInf"

definition fl_sub :: "fl \<Rightarrow> fl \<Rightarrow> fl" where
  "fl_sub a b = fl_add a (fl_neg b)"

fun fl_mul :: "fl \<Rightarrow> fl \<Rightarrow> fl" where
  "fl_mul NaN _ = NaN"
| "fl_mul _ NaN = NaN"
| "fl_mul (Fin a) (Fin b) = Fin (a * b)"
| "fl_mul (Fin a) y = (if a = 0 then NaN else if 0 < a then y else fl_neg y)"
| "fl_mul x (Fin b) = (if b = 0 then NaN else if 0 < b then x else fl_neg x)"
| "fl_mul PInf y = y"
| "fl_mul NInf y = fl_neg y"

fun fl_div :: "fl \<Rightarrow> fl \<Rightarrow> fl" where
  "fl_div NaN _ = NaN"
| "fl_div _ NaN = NaN"
| "fl_div (Fin a) (Fin b) =
     (if b = 0 then (if a = 0 then NaN else if 0 < a then PInf else NInf) else Fin (a / b))"
| "fl_div (Fin a) _ = Fin 0"
| "fl_div x (Fin b) = (if b < 0 then fl_neg x else x)"
| "fl_div _ _ = NaN"

definition fillna :: "fl \<Rightarrow> fl \<Rightarrow> fl" where
  \<comment> \<open>\<^verbatim>\<open>Series.fillna(d)\<close> on one value.\<close>
  "fillna d x = (if x = NaN then d else x)"

text \<open>
  \<^verbatim>\<open>Series.min()\<close> and \<^verbatim>\<open>Series.max()\<close> skip NaN and return NaN for a series
  with no other value.
\<close>

definition fl_min :: "fl \<Rightarrow> fl \<Rightarrow> fl" where
  "fl_min a b = (if fl_lt b a then b else a)"

definition fl_max :: "fl \<Rightarrow> fl \<Rightarrow> fl" where
  "fl_max a b = (if fl_lt a b then b else a)"

definition series_min :: "fl list \<Rightarrow> fl" where
  "series_min xs = (case filter (\<lambda>x. x \<noteq> NaN) xs of [] \<Rightarrow> NaN | y # ys \<Rightarrow> fold fl_min ys y)"

definition series_max :: "fl list \<Rightarrow> fl" where
  "series_max xs = (case filter (\<lambda>x. x \<noteq> NaN) xs of [] \<Rightarrow> NaN | y # ys \<Rightarrow> fold fl_max ys y)"


section \<open>Tables\<close>

text \<open>
  A cell of a DataFrame is a number, a string or a missing value (\<^verbatim>\<open>None\<close>; a float
  NaN is \<open>Num NaN\<close>). A row gives a cell to every column label, \<open>Null\<close> to the labels the
  table does not have; a table is its column labels, in order, and its rows, in order.
  Column labels are unique, as in every table \<^verbatim>\<open>read_csv\<close> produces. The row index
  is positional: the code resets it after the only operation that would change it.
\<close>

datatype cell = Num fl | Str string | Null

type_synonym row = "string \<Rightarrow> cell"

record frame =
  cols :: "string list"
  rows :: "row list"

definition df_empty :: "frame \<Rightarrow> bool" where
  \<comment> \<open>\<^verbatim>\<open>DataFrame.empty\<close>: an axis of length 0.\<close>
  "df_empty f = (rows f = [] \<or> cols f = [])"

definition column :: "frame \<Rightarrow> string \<Rightarrow> cell list" where
  \<comment> \<open>\<^verbatim>\<open>df[c]\<close> for a column the table has.\<close>
  "column f c = map (\<lambda>r. r c) (rows f)"

definition get_series :: "frame \<Rightarrow> string \<Rightarrow> cell list" where
  \<comment> \<open>\<^verbatim>\<open>df.get(c, pd.Series(dtype=...))\<close>: the default is the series of length 0.\<close>
  "get_series f c = (if c \<in> set (cols f) then column f c else [])"

definition reindex :: "nat \<Rightarrow> cell list \<Rightarrow> cell list" where
  \<comment> \<open>Alignment of a series with an index of length \<open>n\<close>: labels it lacks become NaN.\<close>
  "reindex n vs = take n vs @ replicate (n - length vs) (Num NaN)"

definition set_column :: "frame \<Rightarrow> string \<Rightarrow> cell list \<Rightarrow> frame" where
  \<comment> \<open>\<^verbatim>\<open>df[c] = series\<close>: an existing column keeps its place, a new one is appended.\<close>
  "set_column f c vs =
     \<lparr>cols = (if c \<in> set (cols f) then cols f else cols f @ [c]),
      rows = map2 (\<lambda>r v. r(c := v)) (rows f) (reindex (length (rows f)) vs)\<rparr>"

definition set_scalar :: "frame \<Rightarrow> string \<Rightarrow> cell \<Rightarrow> frame" where
  \<comment> \<open>\<^verbatim>\<open>df[c] = v\<close> for a scalar \<open>v\<close>.\<close>
  "set_scalar f c v = set_column f c (replicate (length (rows f)) v)"

definition select_rows :: "frame \<Rightarrow> bool list \<Rightarrow> frame" where
  \<comment> \<open>\<^verbatim>\<open>df[mask]\<close> for a boolean series over the rows of \<open>df\<close>.\<close>
  "select_rows f keep = \<lparr>cols = cols f, rows = map fst (filter snd (zip (rows f) keep))\<rparr>"

definition head :: "frame \<Rightarrow> int \<Rightarrow> frame" where
  \<comment> \<open>\<^verbatim>\<open>df.head(n)\<close> is \<^verbatim>\<open>df.iloc[:n]\<close>: a negative \<open>n\<close> drops the last \<open>|n|\<close> rows.\<close>
  "head f n =
     \<lparr>cols = cols f,
      rows = (if 0 \<le> n then take (nat n) (rows f)
              else take (length (rows f) - nat (- n)) (rows f))\<rparr>"


section \<open>Numeric coercion\<close>

text \<open>
  \<^verbatim>\<open>pd.to_numeric(..., errors='coerce')\<close> on one string is a parameter of the model:
  it returns the number the string denotes, and NaN for a string that denotes none.
  A number cell reads as itself (on the string path pandas prints and re-reads it).
\<close>

type_synonym parser = "string \<Rightarrow> fl"

definition remove_commas :: "string \<Rightarrow> string" where
  "remove_commas s = filter (\<lambda>c. c \<noteq> CHR '','') s"

definition to_numeric_cell :: "parser \<Rightarrow> cell \<Rightarrow> fl" where
  "to_numeric_cell pn c =
     (case c of Num x \<Rightarrow> x | Str s \<Rightarrow> pn (remove_commas s) | Null \<Rightarrow> NaN)"

definition to_numeric_robust :: "parser \<Rightarrow> cell list \<Rightarrow> fl \<Rightarrow> fl list" where
  "to_numeric_robust pn series default_on_error =
     map (\<lambda>c. fillna default_on_error (to_numeric_cell pn c)) series"


section \<open>The scorer\<close>

record scorer =
  scoring_weights :: "(string \<times> real) list"
  brand_tier_map :: "(cell \<times> real) list"
  min_stock :: "real option"
  max_inventory_days :: "real option"
  default_top_n :: int

datatype error = ValueError | KeyError

subsection \<open>preprocess_data\<close>

definition column_map :: "(string \<times> string) list" where
  "column_map =
     [(''Price (USD)'', ''price_usd''), (''COGS (USD)'', ''cogs_usd''),
      (''Units in Stock'', ''units_in_stock''), (''Days of Inventory'', ''days_of_inventory''),
      (''Views Last Month'', ''views_last_month''),
      (''Volume Sold Last Month'', ''volume_sold_last_month''),
      (''Brand Tier'', ''brand_tier''), (''Product Name'', ''Product Name''),
      (''Brand'', ''Brand'')]"

definition numeric_internal_cols :: "string list" where
  "numeric_internal_cols =
     [''price_usd'', ''cogs_usd'', ''units_in_stock'', ''days_of_inventory'',
      ''views_last_month'', ''volume_sold_last_month'']"

definition preprocess_step :: "parser \<Rightarrow> string \<times> string \<Rightarrow> frame \<Rightarrow> frame" where
  "preprocess_step pn entry f =
     (let csv_col = fst entry; internal_col = snd entry in
      if csv_col \<in> set (cols f) then
        (if internal_col \<in> set numeric_internal_cols then
           set_column f internal_col (map Num (to_numeric_robust pn (column f csv_col) (Fin 0)))
         else if internal_col \<noteq> csv_col then set_column f internal_col (column f csv_col)
         else f)
      else
        (if internal_col \<in> set numeric_internal_cols then set_scalar f internal_col (Num (Fin 0))
         else set_scalar f internal_col Null))"

definition preprocess_data :: "parser \<Rightarrow> frame \<Rightarrow> frame" where
  "preprocess_data pn df = fold (preprocess_step pn) column_map df"

subsection \<open>apply_filters\<close>

definition apply_filters :: "parser \<Rightarrow> scorer \<Rightarrow> frame \<Rightarrow> frame" where
  "apply_filters pn S df =
     (let f1 = (case min_stock S of
                  Some m \<Rightarrow>
                    if ''units_in_stock'' \<in> set (cols df) then
                      (let units = to_numeric_robust pn (column df ''units_in_stock'') (Fin 0)
                       in select_rows df (map (\<lambda>u. fl_le (Fin m) u) units))
                    else df
                | None \<Rightarrow> df);
          f2 = (case max_inventory_days S of
                  Some d \<Rightarrow>
                    if ''days_of_inventory'' \<in> set (cols f1) then
                      (let days = to_numeric_robust pn (column f1 ''days_of_inventory'') PInf
                       in select_rows f1 (map (\<lambda>x. fl_le x (Fin d)) days))
                    else f1
                | None \<Rightarrow> f1)
      in f2)"

subsection \<open>calculate_features\<close>

text \<open>
  Arithmetic on two series aligns them on the union of their indexes; \<^verbatim>\<open>np.where\<close>
  broadcasts its arguments or raises; \<^verbatim>\<open>pd.Series(array, index=...)\<close> raises when the
  lengths differ.
\<close>

definition reindex_fl :: "nat \<Rightarrow> fl list \<Rightarrow> fl list" where
  "reindex_fl n xs = take n xs @ replicate (n - length xs) NaN"

definition series_binop :: "(fl \<Rightarrow> fl \<Rightarrow> fl) \<Rightarrow> fl list \<Rightarrow> fl list \<Rightarrow> fl list" where
  "series_binop f xs ys =
     (let n = max (length xs) (length ys) in map2 f (reindex_fl n xs) (reindex_fl n ys))"

definition np_where :: "bool list \<Rightarrow> fl list \<Rightarrow> fl \<Rightarrow> error + fl list" where
  "np_where cond xs y =
     (if length cond = length xs then Inr (map2 (\<lambda>b x. if b then x else y) cond xs)
      else if length cond = 1 then Inr (map (\<lambda>x. if hd cond then x else y) xs)
      else if length xs = 1 then Inr (map (\<lambda>b. if b then hd xs else y) cond)
      else Inl ValueError)"

definition new_series :: "fl list \<Rightarrow> nat \<Rightarrow> error + fl list" where
  "new_series arr n = (if length arr = n then Inr arr else Inl ValueError)"

definition tier_lookup :: "scorer \<Rightarrow> cell \<Rightarrow> fl" where
  \<comment> \<open>\<^verbatim>\<open>Series.map(brand_tier_map).fillna(0)\<close> on one cell.\<close>
  "tier_lookup S c =
     fillna (Fin 0)
       (case c of
          Null \<Rightarrow> NaN
        | Num NaN \<Rightarrow> NaN
        | _ \<Rightarrow> (case map_of (brand_tier_map S) c of Some w \<Rightarrow> Fin w | None \<Rightarrow> NaN))"

definition calculate_features :: "parser \<Rightarrow> scorer \<Rightarrow> frame \<Rightarrow> error + frame" where
  "calculate_features pn S df =
     (let price = to_numeric_robust pn (get_series df ''price_usd'') (Fin 0);
          cogs = to_numeric_robust pn (get_series df ''cogs_usd'') (Fin 0);
          ratio = series_binop fl_div (series_binop fl_sub price cogs) price
      in case np_where (map (\<lambda>p. fl_lt (Fin 0) p) price) ratio (Fin 0) of
           Inl e \<Rightarrow> Inl e
         | Inr profit_margin_array \<Rightarrow>
             (case new_series profit_margin_array (length (rows df)) of
                Inl e \<Rightarrow> Inl e
              | Inr pm \<Rightarrow>
                  (let f1 = set_column df ''profit_margin'' (map (\<lambda>x. Num (fillna (Fin 0) x)) pm);
                       f2 = set_column f1 ''sales_velocity''
                              (map Num (to_numeric_robust pn
                                 (get_series f1 ''volume_sold_last_month'') (Fin 0)));
                       f3 = set_column f2 ''engagement''
                              (map Num (to_numeric_robust pn
                                 (get_series f2 ''views_last_month'') (Fin 0)));
                       f4 = (if ''brand_tier'' \<in> set (cols f3) \<and> brand_tier_map S \<noteq> []
                             then set_column f3 ''brand_tier_weight''
                                    (map (\<lambda>c. Num (tier_lookup S c)) (column f3 ''brand_tier''))
                             else set_scalar f3 ''brand_tier_weight'' (Num (Fin 0)))
                   in Inr f4)))"

subsection \<open>normalize_features\<close>

definition features_to_normalize :: "string list" where
  "features_to_normalize =
     [''sales_velocity'', ''profit_margin'', ''engagement'', ''brand_tier_weight'']"

definition normalize_step :: "parser \<Rightarrow> string \<Rightarrow> frame \<Rightarrow> frame" where
  "normalize_step pn feature f =
     (if feature \<in> set (cols f) \<and> column f feature \<noteq> [] then
        (let series = to_numeric_robust pn (column f feature) (Fin 0);
             min_v = series_min series; max_v = series_max series
         in if fl_lt min_v max_v then
              set_column f (''norm_'' @ feature)
                (map (\<lambda>v. Num (fl_div (fl_sub v min_v) (fl_sub max_v min_v))) series)
            else if fl_eq max_v min_v \<and> \<not> fl_eq max_v (Fin 0) then
              set_scalar f (''norm_'' @ feature) (Num (Fin 1))
            else set_scalar f (''norm_'' @ feature) (Num (Fin 0)))
      else set_scalar f (''norm_'' @ feature) (Num (Fin 0)))"

definition normalize_features :: "parser \<Rightarrow> frame \<Rightarrow> frame" where
  "normalize_features pn df = fold (normalize_step pn) features_to_normalize df"

subsection \<open>calculate_scores\<close>

text \<open>
  The function returns the scored table; the model returns with it the warnings it logs,
  one per configured weight whose normalized column the table lacks.
\<close>

definition norm_col_of :: "string \<Rightarrow> string" where
  "norm_col_of component =
     ''norm_'' @ (if component = ''brand_tier'' then ''brand_tier_weight'' else component)"

definition num_of :: "cell \<Rightarrow> fl" where
  \<comment> \<open>The value of a cell of a float column.\<close>
  "num_of c = (case c of Num x \<Rightarrow> x | _ \<Rightarrow> NaN)"

definition score_step ::
  "parser \<Rightarrow> string \<times> real \<Rightarrow> frame \<times> string list \<Rightarrow> frame \<times> string list" where
  "score_step pn entry st =
     (let component = fst entry; weight = snd entry; f = fst st; warnings = snd st;
          norm_col = norm_col_of component
      in if norm_col \<in> set (cols f) then
           (let vals = to_numeric_robust pn (column f norm_col) (Fin 0)
            in (set_column f ''score''
                  (map2 (\<lambda>s v. Num (fl_add s (fl_mul (Fin weight) v)))
                     (map num_of (column f ''score'')) vals),
                warnings))
         else (f, warnings @ [norm_col]))"

definition calculate_scores :: "parser \<Rightarrow> scorer \<Rightarrow> frame \<Rightarrow> frame \<times> string list" where
  "calculate_scores pn S df =
     fold (score_step pn) (scoring_weights S) (set_scalar df ''score'' (Num (Fin 0)), [])"

subsection \<open>rank_products\<close>

text \<open>
  \<^verbatim>\<open>sort_values('score', ascending=False)\<close> is called with the default sorting
  algorithm of pandas (\<^verbatim>\<open>kind='quicksort'\<close>), which the repository does not contain.
  It is a parameter of the model: a function that reorders the rows by a key. What the
  library promises of it is \<open>sort_values_contract\<close>: the result is a rearrangement of the
  rows, in non-increasing key order when no key is NaN.
\<close>

type_synonym sorter = "(row \<Rightarrow> fl) \<Rightarrow> row list \<Rightarrow> row list"

definition sort_values_contract :: "sorter \<Rightarrow> bool" where
  "sort_values_contract srt =
     (\<forall>k xs. mset (srt k xs) = mset xs \<and>
        ((\<forall>x \<in> set xs. k x \<noteq> NaN) \<longrightarrow> sorted_wrt (\<lambda>a b. fl_le (k b) (k a)) (srt k xs)))"

definition rank_products :: "parser \<Rightarrow> sorter \<Rightarrow> frame \<Rightarrow> int \<Rightarrow> frame" where
  "rank_products pn srt df top_n =
     (let df1 = set_column df ''score''
                  (map Num (to_numeric_robust pn (get_series df ''score'') (Fin 0)));
          ranked = \<lparr>cols = cols df1, rows = srt (\<lambda>r. num_of (r ''score'')) (rows df1)\<rparr>;
          ranked1 = set_column ranked ''rank''
                      (map (\<lambda>k. Num (Fin (real k))) [1..<length (rows ranked) + 1])
      in head ranked1 top_n)"

subsection \<open>process\<close>

definition out_cols :: "string list" where
  "out_cols = [''Product Name'', ''Brand'', ''Price (USD)'', ''score'', ''rank'']"

definition empty_frame :: "string list \<Rightarrow> frame" where
  \<comment> \<open>\<^verbatim>\<open>pd.DataFrame(columns=cs)\<close>\<close>
  "empty_frame cs = \<lparr>cols = cs, rows = []\<rparr>"

definition new_frame_with :: "string \<Rightarrow> cell list \<Rightarrow> frame" where
  \<comment> \<open>\<^verbatim>\<open>df = pd.DataFrame(); df[c] = series\<close>: the table takes the index of the series.\<close>
  "new_frame_with c vs = \<lparr>cols = [c], rows = map (\<lambda>v. (\<lambda>_. Null)(c := v)) vs\<rparr>"

definition select_columns :: "frame \<Rightarrow> string list \<Rightarrow> error + frame" where
  \<comment> \<open>\<^verbatim>\<open>df[cs]\<close> for a list of labels: KeyError when the table lacks one.\<close>
  "select_columns f cs =
     (if set cs \<subseteq> set (cols f)
      then Inr \<lparr>cols = cs, rows = map (\<lambda>r c. if c \<in> set cs then r c else Null) (rows f)\<rparr>
      else Inl KeyError)"

definition process ::
  "parser \<Rightarrow> sorter \<Rightarrow> scorer \<Rightarrow> frame \<Rightarrow> int option \<Rightarrow> error + frame" where
  "process pn srt S df top_n =
     (let effective_top_n = (case top_n of Some n \<Rightarrow> n | None \<Rightarrow> default_top_n S) in
      if df_empty df then Inr (empty_frame out_cols)
      else
        (case calculate_features pn S (preprocess_data pn df) of
           Inl e \<Rightarrow> Inl e
         | Inr x1 \<Rightarrow>
             (let x2 = apply_filters pn S x1 in
              if df_empty x2 then Inr (empty_frame out_cols)
              else
                (let x3 = normalize_features pn x2;
                     x4 = fst (calculate_scores pn S x3);
                     ranked = rank_products pn srt x4 effective_top_n;
                     o1 = new_frame_with ''Product Name'' (get_series ranked ''Product Name'');
                     o2 = set_column o1 ''Brand'' (get_series ranked ''Brand'');
                     o3 = set_column o2 ''Price (USD)'' (get_series ranked ''price_usd'');
                     o4 = set_column o3 ''score'' (get_series ranked ''score'');
                     o5 = set_column o4 ''rank'' (get_series ranked ''rank'')
                 in select_columns o5 out_cols))))"


section \<open>Row-wise readings of the stages\<close>

text \<open>The two criteria of \<open>apply_filters\<close>, as predicates on one row of the table.\<close>

definition keeps_stock :: "parser \<Rightarrow> scorer \<Rightarrow> frame \<Rightarrow> row \<Rightarrow> bool" where
  "keeps_stock pn S df r =
     (case min_stock S of
        None \<Rightarrow> True
      | Some m \<Rightarrow>
          if ''units_in_stock'' \<in> set (cols df)
          then fl_le (Fin m) (fillna (Fin 0) (to_numeric_cell pn (r ''units_in_stock'')))
          else True)"

definition keeps_days :: "parser \<Rightarrow> scorer \<Rightarrow> frame \<Rightarrow> row \<Rightarrow> bool" where
  "keeps_days pn S df r =
     (case max_inventory_days S of
        None \<Rightarrow> True
      | Some d \<Rightarrow>
          if ''days_of_inventory'' \<in> set (cols df)
          then fl_le (fillna PInf (to_numeric_cell pn (r ''days_of_inventory''))) (Fin d)
          else True)"

section \<open>Filtering\<close>

lemma mask_filter: "map fst (filter snd (zip xs (map Q xs))) = filter Q xs"
  by (induction xs) auto

lemma select_rows_rowwise:
  "select_rows f (map p (to_numeric_robust pn (column f c) d)) =
     \<lparr>cols = cols f, rows = filter (\<lambda>r. p (fillna d (to_numeric_cell pn (r c)))) (rows f)\<rparr>"
proof -
  have "map p (to_numeric_robust pn (column f c) d) =
        map (\<lambda>r. p (fillna d (to_numeric_cell pn (r c)))) (rows f)"
    by (simp add: to_numeric_robust_def column_def)
  then show ?thesis
    by (simp add: select_rows_def mask_filter)
qed

lemma apply_filters_cols: "cols (apply_filters pn S df) = cols df"
  by (simp add: apply_filters_def Let_def select_rows_rowwise split: option.splits)

lemma apply_filters_rows:
  "rows (apply_filters pn S df) =
     filter (keeps_days pn S df) (filter (keeps_stock pn S df) (rows df))"
  by (simp add: apply_filters_def Let_def select_rows_rowwise keeps_stock_def keeps_days_def
      split: option.splits)

text \<open>
  Claim C8. Filtering only removes records: the rows \<open>apply_filters\<close> returns are a
  subsequence of the rows it is given (the same rows, unchanged, in the same relative order),
  and the columns are those of the input.
\<close>

theorem filtering_monotonic:
  "subseq (rows (apply_filters pn S df)) (rows df) \<and> cols (apply_filters pn S df) = cols df"
proof -
  have "subseq (filter (keeps_days pn S df) (filter (keeps_stock pn S df) (rows df))) (rows df)"
    by (meson subseq_filter_left subseq_order.order_trans)
  then show ?thesis
    by (simp add: apply_filters_rows apply_filters_cols)
qed


end
